theory Spec2Isabelle
  imports Main "HOL-Library.Sublist"
begin

section \<open>The session proxy of \<open>server.py\<close>\<close>

text \<open>
  \<open>server.py\<close> is one module: it loads a \<open>Settings\<close> object from the environment when it
  is imported, builds the application, and defines the handler \<open>realtime_chat_session\<close>
  behind \<open>GET /session\<close>. The handler posts one fixed request to the upstream API and
  relays what comes back.

  The embedding makes the effects explicit. The network is a value: what each attempt to
  reach the upstream comes to, how many attempts were made and which requests were
  written. An exception is the left summand of a sum type, so that every \<open>raise\<close> of the
  source, and every exception a library call lets through, is a branch of the model.
\<close>

subsection \<open>Configuration\<close>

text \<open>
  \<^verbatim>\<open>class Settings(BaseSettings): OPENAI_API_KEY: str\<close> with \<open>env_file = ".env"\<close>: one
  required field of type \<open>str\<close>, with no validator and no constraint on its length.
  \<open>Settings()\<close> reads the process environment and then the variables of the file
  \<open>.env\<close> (none when there is no file). Names are compared in lower case, a later
  variable of a source overrides an earlier one of the same name, and the process
  environment has priority over the file. A variable of the file with another name and a
  value that is not empty is passed on as an extra input, which the settings class
  forbids. \<open>Settings()\<close> raises a validation error when there is an extra input, or when
  no source holds a value for the field.
\<close>

record Settings =
  OPENAI_API_KEY :: string

datatype startup_error =
    ValidationError
  | RuntimeError string

definition lower_char :: "char \<Rightarrow> char" where
  "lower_char c =
     (if 65 \<le> (of_char c :: nat) \<and> (of_char c :: nat) \<le> 90
      then Char (digit0 c) (digit1 c) (digit2 c) (digit3 c) (digit4 c) True (digit6 c) (digit7 c)
      else c)"

definition lower :: "string \<Rightarrow> string" where
  "lower s = map lower_char s"

definition lookup_var :: "string \<Rightarrow> (string \<times> string) list \<Rightarrow> string option" where
  "lookup_var name vars =
     map_option snd (find (\<lambda>kv. lower (fst kv) = lower name) (rev vars))"

definition extra_inputs :: "(string \<times> string) list \<Rightarrow> (string \<times> string) list" where
  "extra_inputs dotenv =
     filter (\<lambda>kv. snd kv \<noteq> [] \<and> lower (fst kv) \<noteq> lower ''OPENAI_API_KEY'') dotenv"

definition Settings_init ::
  "(string \<times> string) list \<Rightarrow> (string \<times> string) list \<Rightarrow> startup_error + Settings" where
  "Settings_init environ dotenv =
     (if extra_inputs dotenv \<noteq> [] then Inl ValidationError
      else case lookup_var ''OPENAI_API_KEY'' environ of
             Some v \<Rightarrow> Inr \<lparr>OPENAI_API_KEY = v\<rparr>
           | None \<Rightarrow>
               (case lookup_var ''OPENAI_API_KEY'' dotenv of
                  Some v \<Rightarrow> Inr \<lparr>OPENAI_API_KEY = v\<rparr>
                | None \<Rightarrow> Inl ValidationError))"

text \<open>
  The module body, in the order of the source: \<open>settings = Settings()\<close> (line 18), the
  application object and its middleware, then \<open>StaticFiles(directory="static")\<close> (line
  30), which raises \<open>RuntimeError\<close> when the directory does not exist. An exception at
  import time ends the process before anything is served; otherwise the application
  exists and holds the settings.
\<close>

record app =
  settings :: Settings

definition startup ::
  "(string \<times> string) list \<Rightarrow> (string \<times> string) list \<Rightarrow> bool \<Rightarrow> startup_error + app" where
  "startup environ dotenv static_dir_exists =
     (case Settings_init environ dotenv of
        Inl e \<Rightarrow> Inl e
      | Inr cfg \<Rightarrow>
          if static_dir_exists then Inr \<lparr>settings = cfg\<rparr>
          else Inl (RuntimeError ''Directory 'static' does not exist''))"

subsection \<open>The outbound call\<close>

text \<open>
  What \<open>client.post(url, headers=headers, json=payload)\<close> assembles, with the timeout of
  the client, and what a connection to the upstream brings back: a response with a status
  code and a body text, or one of the exceptions of \<open>httpx\<close>.
\<close>

record http_request =
  req_method :: string
  req_url :: string
  req_headers :: "(string \<times> string) list"
  req_json :: "(string \<times> string) list"
  req_timeout :: nat

record response =
  status_code :: int
  resp_text :: string

datatype httpx_error =
    ConnectTimeout | ReadTimeout | WriteTimeout | PoolTimeout
  | ConnectError | ReadError | WriteError | CloseError
  | LocalProtocolError | RemoteProtocolError

text \<open>
  The exceptions that leave \<open>realtime_chat_session\<close>: the \<open>HTTPException\<close> it raises
  itself (line 62), an exception of \<open>client.post\<close> (line 59, nothing catches it: an error
  of \<open>httpx\<close>, or the encoding error raised while the request is built), and the decoding
  error of \<open>resp.json()\<close> (line 64, nothing catches it either).
\<close>

datatype exn =
    HTTPException int string
  | TransportError httpx_error
  | UnicodeEncodeError
  | JSONDecodeError

text \<open>
  The network: \<open>upstream net n req\<close> is what the \<open>n\<close>-th attempt to reach the upstream
  comes to when it is made for \<open>req\<close> (no connection, or a response or a later failure once
  the request is written); \<open>attempts\<close> counts the attempts made and \<open>sent\<close> holds the
  requests written to a connection, in order.
\<close>

record network =
  upstream :: "nat \<Rightarrow> http_request \<Rightarrow> httpx_error + response"
  attempts :: nat
  sent :: "http_request list"

record AsyncClient =
  timeout :: nat

text \<open>
  One call of the client goes through three steps, and each of the first two can end it.
  \<^enum> The request is built: header names and values are encoded as ASCII, and a character
    outside ASCII (a \<open>char\<close> with the high bit set) raises \<open>UnicodeEncodeError\<close>. Nothing
    has touched the network.
  \<^enum> A connection is opened: this is the attempt. It can fail (\<open>ConnectError\<close>,
    \<open>ConnectTimeout\<close>, \<open>PoolTimeout\<close>), and then nothing is written.
  \<^enum> The request is written. The HTTP/1.1 layer first checks every header value against
    the grammar of a field value: empty, or characters other than NUL and whitespace,
    separated by runs of spaces and tabs, with no space or tab at either end. A value
    that fails raises \<open>LocalProtocolError\<close> and nothing is written. Otherwise the request
    is written and the response, or the failure of reading it, is the outcome.
  The header names of the handler are fixed tokens; only values are checked here.
\<close>

definition ascii :: "string \<Rightarrow> bool" where
  "ascii s = list_all (\<lambda>c. \<not> digit7 c) s"

definition ascii_headers :: "(string \<times> string) list \<Rightarrow> bool" where
  "ascii_headers hs = list_all (\<lambda>h. ascii (fst h) \<and> ascii (snd h)) hs"

definition field_vchar :: "char \<Rightarrow> bool" where
  "field_vchar c =
     (c \<notin> set [CHR 0x00, CHR 0x09, CHR 0x0A, CHR 0x0B, CHR 0x0C, CHR 0x0D, CHR 0x20])"

definition field_char :: "char \<Rightarrow> bool" where
  "field_char c = (c \<notin> set [CHR 0x00, CHR 0x0A, CHR 0x0B, CHR 0x0C, CHR 0x0D])"

definition legal_value :: "string \<Rightarrow> bool" where
  "legal_value v =
     (v = [] \<or>
      (field_vchar (hd v) \<and> field_vchar (last v) \<and> list_all field_char v))"

definition legal_headers :: "(string \<times> string) list \<Rightarrow> bool" where
  "legal_headers hs = list_all (\<lambda>h. legal_value (snd h)) hs"

definition no_connection :: "httpx_error + response \<Rightarrow> bool" where
  "no_connection out =
     (out = Inl ConnectError \<or> out = Inl ConnectTimeout \<or> out = Inl PoolTimeout)"

definition request :: "http_request \<Rightarrow> network \<Rightarrow> (exn + response) \<times> network" where
  "request req net =
     (if \<not> ascii_headers (req_headers req) then (Inl UnicodeEncodeError, net)
      else
        let out = upstream net (attempts net) req;
            net1 = net\<lparr>attempts := Suc (attempts net)\<rparr>
        in if no_connection out then (map_sum TransportError id out, net1)
           else if \<not> legal_headers (req_headers req)
           then (Inl (TransportError LocalProtocolError), net1)
           else (map_sum TransportError id out, net1\<lparr>sent := sent net @ [req]\<rparr>))"

definition post ::
  "AsyncClient \<Rightarrow> string \<Rightarrow> (string \<times> string) list \<Rightarrow> (string \<times> string) list \<Rightarrow>
   network \<Rightarrow> (exn + response) \<times> network" where
  "post client url headers json net =
     request \<lparr>req_method = ''POST'', req_url = url, req_headers = headers,
              req_json = json, req_timeout = timeout client\<rparr> net"

subsection \<open>The handler\<close>

text \<open>
  \<open>loads\<close> stands for the decoder behind \<open>resp.json()\<close>: \<open>Some j\<close> when the body text
  decodes to the value \<open>j\<close>, \<open>None\<close> when decoding raises. Python's decoder also accepts
  numbers that are not JSON (\<open>NaN\<close>, \<open>Infinity\<close>) and reads a number too large for a
  float, such as \<open>1e400\<close>, as \<open>inf\<close>.
\<close>

definition realtime_chat_session ::
  "(string \<Rightarrow> 'j option) \<Rightarrow> Settings \<Rightarrow> network \<Rightarrow> (exn + 'j) \<times> network" where
  "realtime_chat_session loads cfg net =
     (let url = ''https://api.openai.com/v1/realtime/sessions'';
          headers = [(''Authorization'', ''Bearer '' @ OPENAI_API_KEY cfg),
                     (''Content-Type'', ''application/json'')];
          payload = [(''model'', ''gpt-4o-realtime-preview-2025-06-03''),
                     (''voice'', ''verse'')];
          client = \<lparr>timeout = 30\<rparr>;
          (r, net') = post client url headers payload net
      in case r of
           Inl x \<Rightarrow> (Inl x, net')
         | Inr resp \<Rightarrow>
             if status_code resp \<noteq> 200
             then (Inl (HTTPException (status_code resp) (resp_text resp)), net')
             else (case loads (resp_text resp) of
                     None \<Rightarrow> (Inl JSONDecodeError, net')
                   | Some j \<Rightarrow> (Inr j, net')))"

subsection \<open>The route\<close>

text \<open>
  \<^verbatim>\<open>@app.get("/session")\<close> with the signature \<open>(cfg: Settings = Depends(lambda: settings))\<close>:
  the framework calls the handler with the module's settings and with nothing of the
  caller's request (no query parameter, header or body is a parameter of the handler).
  A returned value is serialised as JSON and becomes a 200 response; \<open>serialisable\<close>
  stands for the framework's serialiser, which raises on a value that JSON cannot
  express, such as a float that is not finite. An \<open>HTTPException\<close> becomes a response
  with its status code and the body \<open>{"detail": ...}\<close> (no body for a status that allows
  none). Any other exception, of the handler or of the serialiser, becomes the
  plain-text response \<open>500 Internal Server Error\<close>.
\<close>

record caller_request =
  query :: "(string \<times> string) list"
  caller_headers :: "(string \<times> string) list"
  caller_body :: string

datatype 'j body =
    JSONBody 'j
  | DetailBody string
  | PlainTextBody string
  | NoBody

record 'j http_response =
  status :: int
  body :: "'j body"

definition is_body_allowed_for_status_code :: "int \<Rightarrow> bool" where
  "is_body_allowed_for_status_code s = (\<not> (s < 200 \<or> s = 204 \<or> s = 205 \<or> s = 304))"

definition server_error :: "'j http_response" where
  "server_error = \<lparr>status = 500, body = PlainTextBody ''Internal Server Error''\<rparr>"

definition render :: "('j \<Rightarrow> bool) \<Rightarrow> exn + 'j \<Rightarrow> 'j http_response" where
  "render serialisable r =
     (case r of
        Inr j \<Rightarrow> if serialisable j then \<lparr>status = 200, body = JSONBody j\<rparr> else server_error
      | Inl (HTTPException s d) \<Rightarrow>
          if is_body_allowed_for_status_code s then \<lparr>status = s, body = DetailBody d\<rparr>
          else \<lparr>status = s, body = NoBody\<rparr>
      | Inl (TransportError e) \<Rightarrow> server_error
      | Inl UnicodeEncodeError \<Rightarrow> server_error
      | Inl JSONDecodeError \<Rightarrow> server_error)"

definition get_session ::
  "(string \<Rightarrow> 'j option) \<Rightarrow> ('j \<Rightarrow> bool) \<Rightarrow> app \<Rightarrow> caller_request \<Rightarrow> network \<Rightarrow>
   'j http_response \<times> network" where
  "get_session loads serialisable a creq net =
     (let cfg = settings a;
          (r, net') = realtime_chat_session loads cfg net
      in (render serialisable r, net'))"

subsection \<open>Derived notions and examples\<close>

text \<open>The request an invocation with the configuration \<open>cfg\<close> assembles.\<close>

definition session_request :: "Settings \<Rightarrow> http_request" where
  "session_request cfg =
     \<lparr>req_method = ''POST'',
      req_url = ''https://api.openai.com/v1/realtime/sessions'',
      req_headers = [(''Authorization'', ''Bearer '' @ OPENAI_API_KEY cfg),
                     (''Content-Type'', ''application/json'')],
      req_json = [(''model'', ''gpt-4o-realtime-preview-2025-06-03''), (''voice'', ''verse'')],
      req_timeout = 30\<rparr>"

text \<open>
  A request is written when all three steps of the call get through: its headers are
  ASCII, the attempt obtains a connection, and its header values are legal.
\<close>

definition written :: "http_request \<Rightarrow> network \<Rightarrow> bool" where
  "written req net =
     (ascii_headers (req_headers req) \<and>
      \<not> no_connection (upstream net (attempts net) req) \<and>
      legal_headers (req_headers req))"

text \<open>An upstream that gives the same answer to every request.\<close>

definition always :: "httpx_error + response \<Rightarrow> nat \<Rightarrow> http_request \<Rightarrow> httpx_error + response" where
  "always out n req = out"

text \<open>
  For the examples, a decoder and a serialiser that agree with Python's on three bodies:
  the session object of the specification's scenario, a smaller one, and the number
  \<open>1e400\<close>, which decodes to the float \<open>inf\<close> and cannot be serialised.
\<close>

datatype example_json =
    JObject "(string \<times> (string + int)) list"
  | JFloatInf

definition example_loads :: "string \<Rightarrow> example_json option" where
  \<open>example_loads s =
     (if s = ''{"id": "sess_1", "expires_at": 123}''
      then Some (JObject [(''id'', Inl ''sess_1''), (''expires_at'', Inr 123)])
      else if s = ''{"id": "sess_1"}'' then Some (JObject [(''id'', Inl ''sess_1'')])
      else if s = ''1e400'' then Some JFloatInf
      else None)\<close>

definition example_serialisable :: "example_json \<Rightarrow> bool" where
  "example_serialisable j = (case j of JObject kvs \<Rightarrow> True | JFloatInf \<Rightarrow> False)"

section \<open>What one invocation does\<close>

lemma lower_char_code:
  "(of_char (lower_char c) :: nat) =
     (if 65 \<le> (of_char c :: nat) \<and> (of_char c :: nat) \<le> 90 then of_char c + 32 else of_char c)"
  by (cases c) (auto simp add: lower_char_def)

lemma request_result:
  "fst (request req net) =
     (if \<not> ascii_headers (req_headers req) then Inl UnicodeEncodeError
      else if no_connection (upstream net (attempts net) req)
      then map_sum TransportError id (upstream net (attempts net) req)
      else if \<not> legal_headers (req_headers req) then Inl (TransportError LocalProtocolError)
      else map_sum TransportError id (upstream net (attempts net) req))"
  by (simp add: request_def Let_def)

lemma request_written:
  "written req net \<Longrightarrow>
     fst (request req net) = map_sum TransportError id (upstream net (attempts net) req)"
  by (simp add: request_result written_def)

lemma request_sent:
  "sent (snd (request req net)) = sent net @ (if written req net then [req] else [])"
  by (simp add: request_def written_def Let_def)

lemma request_attempts:
  "attempts (snd (request req net)) =
     attempts net + (if ascii_headers (req_headers req) then 1 else 0)"
  by (simp add: request_def Let_def)

lemma request_upstream: "upstream (snd (request req net)) = upstream net"
  by (simp add: request_def Let_def)

lemma request_not_http_exception: "fst (request req net) \<noteq> Inl (HTTPException S T)"
  by (cases "upstream net (attempts net) req") (simp_all add: request_result)

lemma handler_state: "snd (realtime_chat_session loads cfg net) = snd (request (session_request cfg) net)"
  by (cases "request (session_request cfg) net")
     (simp add: realtime_chat_session_def post_def session_request_def Let_def
        split: sum.split option.split)

lemma handler_result:
  "fst (realtime_chat_session loads cfg net) =
     (case fst (request (session_request cfg) net) of
        Inl x \<Rightarrow> Inl x
      | Inr resp \<Rightarrow>
          if status_code resp \<noteq> 200
          then Inl (HTTPException (status_code resp) (resp_text resp))
          else (case loads (resp_text resp) of None \<Rightarrow> Inl JSONDecodeError | Some j \<Rightarrow> Inr j))"
  by (cases "request (session_request cfg) net")
     (simp add: realtime_chat_session_def post_def session_request_def Let_def
        split: sum.split option.split)

lemma route_result:
  "fst (get_session loads serialisable a creq net) =
     render serialisable (fst (realtime_chat_session loads (settings a) net))"
  by (simp add: get_session_def Let_def split: prod.split)

lemma route_state:
  "snd (get_session loads serialisable a creq net) = snd (request (session_request (settings a)) net)"
proof -
  have "snd (get_session loads serialisable a creq net) =
        snd (realtime_chat_session loads (settings a) net)"
    by (simp add: get_session_def Let_def split: prod.split)
  then show ?thesis by (simp add: handler_state)
qed

lemma render_exception:
  "(\<And>S T. x \<noteq> HTTPException S T) \<Longrightarrow> render serialisable (Inl x) = server_error"
  by (cases x) (auto simp add: render_def)


lemmas settings_simps =
  Settings_init_def extra_inputs_def lookup_var_def lower_def lower_char_def

lemmas call_simps =
  request_result always_def session_request_def ascii_headers_def ascii_def
  legal_headers_def legal_value_def field_vchar_def field_char_def no_connection_def

section \<open>Examples\<close>

text \<open>
  The configuration: a name in lower case is found, the file \<open>.env\<close> supplies the value
  when the process environment has none, the process environment has priority, and
  another variable of the file with a value is refused.
\<close>

lemma Settings_init_lower_case_name:
  "Settings_init [(''openai_api_key'', ''sk-lower'')] [] = Inr \<lparr>OPENAI_API_KEY = ''sk-lower''\<rparr>"
  by (simp add: settings_simps)

lemma Settings_init_from_dotenv:
  "Settings_init [(''PATH'', ''/usr/bin'')] [(''OPENAI_API_KEY'', ''sk-file'')] =
     Inr \<lparr>OPENAI_API_KEY = ''sk-file''\<rparr>"
  by (simp add: settings_simps)

lemma Settings_init_environ_first:
  "Settings_init [(''OPENAI_API_KEY'', ''sk-env'')] [(''OPENAI_API_KEY'', ''sk-file'')] =
     Inr \<lparr>OPENAI_API_KEY = ''sk-env''\<rparr>"
  by (simp add: settings_simps)

lemma Settings_init_extra_input:
  "Settings_init [(''OPENAI_API_KEY'', ''sk-env'')] [(''OTHER'', ''x'')] = Inl ValidationError"
  by (simp add: settings_simps)

text \<open>
  The call: with the empty credential the header value \<open>Bearer\<close> and a space ends in a
  space, so a connection is attempted and the request is refused before it is written;
  when that attempt cannot connect, the connection error is the outcome. With a
  credential outside ASCII nothing is attempted.
\<close>

lemma request_empty_credential:
  \<open>request (session_request \<lparr>OPENAI_API_KEY = []\<rparr>)
      \<lparr>upstream = always (Inr \<lparr>status_code = 200, resp_text = ''{"id": "sess_1"}''\<rparr>),
       attempts = 0, sent = []\<rparr> =
    (Inl (TransportError LocalProtocolError),
     \<lparr>upstream = always (Inr \<lparr>status_code = 200, resp_text = ''{"id": "sess_1"}''\<rparr>),
      attempts = 1, sent = []\<rparr>)\<close>
  by (simp add: request_def Let_def always_def session_request_def ascii_headers_def ascii_def
      legal_headers_def legal_value_def field_vchar_def field_char_def no_connection_def)

lemma request_empty_credential_no_connection:
  "fst (request (session_request \<lparr>OPENAI_API_KEY = []\<rparr>)
      \<lparr>upstream = always (Inl ConnectError), attempts = 0, sent = []\<rparr>) =
    Inl (TransportError ConnectError)"
  by (simp add: request_def Let_def always_def session_request_def ascii_headers_def ascii_def
      no_connection_def)

lemma request_non_ascii_credential:
  \<open>request (session_request \<lparr>OPENAI_API_KEY = ''sk-'' @ [CHR 0xC3, CHR 0xA9]\<rparr>)
      \<lparr>upstream = always (Inr \<lparr>status_code = 200, resp_text = ''{"id": "sess_1"}''\<rparr>),
       attempts = 0, sent = []\<rparr> =
    (Inl UnicodeEncodeError,
     \<lparr>upstream = always (Inr \<lparr>status_code = 200, resp_text = ''{"id": "sess_1"}''\<rparr>),
      attempts = 0, sent = []\<rparr>)\<close>
  by (simp add: request_def session_request_def ascii_headers_def ascii_def)

lemma request_ordinary_credential:
  \<open>request (session_request \<lparr>OPENAI_API_KEY = ''sk-test''\<rparr>)
      \<lparr>upstream = always (Inr \<lparr>status_code = 200, resp_text = ''{"id": "sess_1"}''\<rparr>),
       attempts = 0, sent = []\<rparr> =
    (Inr \<lparr>status_code = 200, resp_text = ''{"id": "sess_1"}''\<rparr>,
     \<lparr>upstream = always (Inr \<lparr>status_code = 200, resp_text = ''{"id": "sess_1"}''\<rparr>),
      attempts = 1, sent = [session_request \<lparr>OPENAI_API_KEY = ''sk-test''\<rparr>]\<rparr>)\<close>
  by (simp add: request_def Let_def always_def session_request_def ascii_headers_def ascii_def
      legal_headers_def legal_value_def field_vchar_def field_char_def no_connection_def)

section \<open>Responses of the upstream\<close>

text \<open>
  C1, as the specification states it, fails: Python's decoder reads the body \<open>1e400\<close> of a
  200 answer as the float \<open>inf\<close>, the handler returns it, and the framework cannot
  serialise it. The caller receives \<open>500 Internal Server Error\<close>, not status 200.
\<close>

theorem session_200_not_relayed_counterexample:
  \<open>fst (request (session_request \<lparr>OPENAI_API_KEY = ''sk-test''\<rparr>)
          \<lparr>upstream = always (Inr \<lparr>status_code = 200, resp_text = ''1e400''\<rparr>),
           attempts = 0, sent = []\<rparr>) =
     Inr \<lparr>status_code = 200, resp_text = ''1e400''\<rparr> \<and>
   fst (get_session example_loads example_serialisable
          \<lparr>settings = \<lparr>OPENAI_API_KEY = ''sk-test''\<rparr>\<rparr>
          \<lparr>query = [], caller_headers = [], caller_body = []\<rparr>
          \<lparr>upstream = always (Inr \<lparr>status_code = 200, resp_text = ''1e400''\<rparr>),
           attempts = 0, sent = []\<rparr>) =
     \<lparr>status = 500, body = PlainTextBody ''Internal Server Error''\<rparr>\<close>
  by (simp add: route_result handler_result render_def server_error_def call_simps
      example_loads_def example_serialisable_def)

text \<open>
  C1, amended. For every request to \<open>GET /session\<close>: when the upstream call returns status
  200 with a body \<open>B\<close> that decodes to the value \<open>j\<close>, the handler returns \<open>j\<close> as it is.
  The endpoint then responds with status 200 and the JSON content \<open>j\<close> if the framework
  can serialise \<open>j\<close>, and with \<open>500 Internal Server Error\<close> if it cannot.
\<close>

theorem session_200_relays_json:
  assumes "fst (request (session_request (settings a)) net) =
             Inr \<lparr>status_code = 200, resp_text = B\<rparr>"
    and "loads B = Some j"
  shows "fst (realtime_chat_session loads (settings a) net) = Inr j \<and>
         (serialisable j \<longrightarrow>
            fst (get_session loads serialisable a creq net) = \<lparr>status = 200, body = JSONBody j\<rparr>) \<and>
         (\<not> serialisable j \<longrightarrow>
            fst (get_session loads serialisable a creq net) = server_error)"
proof -
  from assms have h: "fst (realtime_chat_session loads (settings a) net) = Inr j"
    by (simp add: handler_result)
  then have "fst (get_session loads serialisable a creq net) = render serialisable (Inr j)"
    by (simp add: route_result)
  with h show ?thesis by (simp add: render_def)
qed

text \<open>
  The scenario of the specification: the credential is \<open>sk-test\<close> and the upstream answers
  \<open>200 {"id": "sess_1", "expires_at": 123}\<close>.
\<close>

theorem session_200_relays_json_witness:
  \<open>let B = ''{"id": "sess_1", "expires_at": 123}'';
       j = JObject [(''id'', Inl ''sess_1''), (''expires_at'', Inr 123)];
       a = \<lparr>settings = \<lparr>OPENAI_API_KEY = ''sk-test''\<rparr>\<rparr>;
       creq = \<lparr>query = [], caller_headers = [], caller_body = []\<rparr>;
       net = \<lparr>upstream = always (Inr \<lparr>status_code = 200, resp_text = B\<rparr>),
              attempts = 0, sent = []\<rparr>
   in fst (request (session_request (settings a)) net) =
        Inr \<lparr>status_code = 200, resp_text = B\<rparr> \<and>
      example_loads B = Some j \<and>
      example_serialisable j \<and>
      fst (realtime_chat_session example_loads (settings a) net) = Inr j \<and>
      fst (get_session example_loads example_serialisable a creq net) =
        \<lparr>status = 200, body = JSONBody j\<rparr>\<close>
  unfolding Let_def
  using session_200_relays_json
    [of \<open>\<lparr>settings = \<lparr>OPENAI_API_KEY = ''sk-test''\<rparr>\<rparr>\<close>
        \<open>\<lparr>upstream = always (Inr \<lparr>status_code = 200,
             resp_text = ''{"id": "sess_1", "expires_at": 123}''\<rparr>), attempts = 0, sent = []\<rparr>\<close>
        \<open>''{"id": "sess_1", "expires_at": 123}''\<close>
        example_loads
        \<open>JObject [(''id'', Inl ''sess_1''), (''expires_at'', Inr 123)]\<close>
        example_serialisable
        \<open>\<lparr>query = [], caller_headers = [], caller_body = []\<rparr>\<close>]
  by (simp add: call_simps example_loads_def example_serialisable_def)

text \<open>
  C2. For every request to \<open>GET /session\<close>: when the upstream call returns a status \<open>S\<close>
  other than 200 with the body text \<open>T\<close>, the handler fails with an \<open>HTTPException\<close> whose
  status code is \<open>S\<close> and whose detail is \<open>T\<close>.
\<close>

theorem session_non_200_raises_http_error:
  assumes "fst (request (session_request cfg) net) = Inr \<lparr>status_code = S, resp_text = T\<rparr>"
    and "S \<noteq> 200"
  shows "fst (realtime_chat_session loads cfg net) = Inl (HTTPException S T)"
  using assms by (simp add: handler_result)

text \<open>
  The scenario of the specification: the upstream answers
  \<open>401 {"error": "invalid_api_key"}\<close>.
\<close>

theorem session_non_200_raises_http_error_witness:
  \<open>let T = ''{"error": "invalid_api_key"}'';
       cfg = \<lparr>OPENAI_API_KEY = ''sk-test''\<rparr>;
       net = \<lparr>upstream = always (Inr \<lparr>status_code = 401, resp_text = T\<rparr>),
              attempts = 0, sent = []\<rparr>
   in fst (request (session_request cfg) net) = Inr \<lparr>status_code = 401, resp_text = T\<rparr> \<and>
      (401::int) \<noteq> 200 \<and>
      fst (realtime_chat_session example_loads cfg net) = Inl (HTTPException 401 T)\<close>
  unfolding Let_def
  using session_non_200_raises_http_error
    [of \<open>\<lparr>OPENAI_API_KEY = ''sk-test''\<rparr>\<close>
        \<open>\<lparr>upstream = always (Inr \<lparr>status_code = 401,
             resp_text = ''{"error": "invalid_api_key"}''\<rparr>), attempts = 0, sent = []\<rparr>\<close>
        401
        \<open>''{"error": "invalid_api_key"}''\<close>
        example_loads]
  by (simp add: call_simps)

text \<open>
  C10. When the upstream call returns status 200 with a body that does not decode as
  JSON, \<open>resp.json()\<close> raises and nothing catches it: the handler fails with the decoding
  error instead of relaying the body, and the caller receives the framework's
  \<open>500 Internal Server Error\<close>.
\<close>

theorem session_200_invalid_json_raises:
  assumes "fst (request (session_request (settings a)) net) =
             Inr \<lparr>status_code = 200, resp_text = B\<rparr>"
    and "loads B = None"
  shows "fst (realtime_chat_session loads (settings a) net) = Inl JSONDecodeError \<and>
         fst (get_session loads serialisable a creq net) =
           \<lparr>status = 500, body = PlainTextBody ''Internal Server Error''\<rparr>"
proof -
  from assms have h: "fst (realtime_chat_session loads (settings a) net) = Inl JSONDecodeError"
    by (simp add: handler_result)
  then have "fst (get_session loads serialisable a creq net) =
             render serialisable (Inl JSONDecodeError)"
    by (simp add: route_result)
  with h show ?thesis by (simp add: render_def server_error_def)
qed

theorem session_200_invalid_json_raises_witness:
  \<open>let B = ''<html>Bad Gateway</html>'';
       a = \<lparr>settings = \<lparr>OPENAI_API_KEY = ''sk-test''\<rparr>\<rparr>;
       creq = \<lparr>query = [], caller_headers = [], caller_body = []\<rparr>;
       net = \<lparr>upstream = always (Inr \<lparr>status_code = 200, resp_text = B\<rparr>),
              attempts = 0, sent = []\<rparr>
   in fst (request (session_request (settings a)) net) =
        Inr \<lparr>status_code = 200, resp_text = B\<rparr> \<and>
      example_loads B = None \<and>
      fst (realtime_chat_session example_loads (settings a) net) = Inl JSONDecodeError \<and>
      fst (get_session example_loads example_serialisable a creq net) =
        \<lparr>status = 500, body = PlainTextBody ''Internal Server Error''\<rparr>\<close>
  unfolding Let_def
  using session_200_invalid_json_raises
    [of \<open>\<lparr>settings = \<lparr>OPENAI_API_KEY = ''sk-test''\<rparr>\<rparr>\<close>
        \<open>\<lparr>upstream = always (Inr \<lparr>status_code = 200,
             resp_text = ''<html>Bad Gateway</html>''\<rparr>), attempts = 0, sent = []\<rparr>\<close>
        \<open>''<html>Bad Gateway</html>''\<close>
        example_loads
        example_serialisable
        \<open>\<lparr>query = [], caller_headers = [], caller_body = []\<rparr>\<close>]
  by (simp add: call_simps example_loads_def)

section \<open>Failures of the upstream call\<close>

text \<open>
  C7. When the upstream call itself fails, that is when \<open>client.post\<close> raises \<open>x\<close> (a
  timeout or a connection error of \<open>httpx\<close>, or an error raised before the request is
  written), the handler does not catch the exception: \<open>x\<close> leaves the handler as it is,
  it is not an \<open>HTTPException\<close> carrying an upstream status, and the caller receives the
  framework's \<open>500 Internal Server Error\<close>.
\<close>

theorem session_transport_error_propagates:
  assumes "fst (request (session_request (settings a)) net) = Inl x"
  shows "fst (realtime_chat_session loads (settings a) net) = Inl x \<and>
         (\<forall>S T. fst (realtime_chat_session loads (settings a) net) \<noteq> Inl (HTTPException S T)) \<and>
         fst (get_session loads serialisable a creq net) =
           \<lparr>status = 500, body = PlainTextBody ''Internal Server Error''\<rparr>"
proof -
  from assms have h: "fst (realtime_chat_session loads (settings a) net) = Inl x"
    by (simp add: handler_result)
  from assms have nh: "\<And>S T. x \<noteq> HTTPException S T"
    using request_not_http_exception [of "session_request (settings a)" net] by auto
  from h have "fst (get_session loads serialisable a creq net) = render serialisable (Inl x)"
    by (simp add: route_result)
  with nh have "fst (get_session loads serialisable a creq net) = server_error"
    by (simp add: render_exception)
  with h nh show ?thesis by (simp add: server_error_def)
qed

text \<open>The upstream does not answer within the timeout: reading the response times out.\<close>

theorem session_transport_error_propagates_witness:
  \<open>let a = \<lparr>settings = \<lparr>OPENAI_API_KEY = ''sk-test''\<rparr>\<rparr>;
       creq = \<lparr>query = [], caller_headers = [], caller_body = []\<rparr>;
       net = \<lparr>upstream = always (Inl ReadTimeout), attempts = 0, sent = []\<rparr>
   in fst (request (session_request (settings a)) net) = Inl (TransportError ReadTimeout) \<and>
      fst (realtime_chat_session example_loads (settings a) net) =
        Inl (TransportError ReadTimeout) \<and>
      (\<forall>S T. fst (realtime_chat_session example_loads (settings a) net) \<noteq>
        Inl (HTTPException S T)) \<and>
      fst (get_session example_loads example_serialisable a creq net) =
        \<lparr>status = 500, body = PlainTextBody ''Internal Server Error''\<rparr>\<close>
  unfolding Let_def
  using session_transport_error_propagates
    [of \<open>\<lparr>settings = \<lparr>OPENAI_API_KEY = ''sk-test''\<rparr>\<rparr>\<close>
        \<open>\<lparr>upstream = always (Inl ReadTimeout), attempts = 0, sent = []\<rparr>\<close>
        \<open>TransportError ReadTimeout\<close>
        example_loads
        example_serialisable
        \<open>\<lparr>query = [], caller_headers = [], caller_body = []\<rparr>\<close>]
  by (simp add: call_simps)

section \<open>The outbound request\<close>

text \<open>
  C3. For every invocation of \<open>GET /session\<close>, whatever the caller sent (query, headers,
  body), whatever the configuration and whatever the upstream answers, the JSON body of
  the request the invocation writes is the literal payload
  \<open>{"model": "gpt-4o-realtime-preview-2025-06-03", "voice": "verse"}\<close>: the bodies of the
  requests written grow by exactly that payload when the request is written, and by
  nothing otherwise.
\<close>

theorem session_payload_fixed:
  "map req_json (sent (snd (get_session loads serialisable a creq net))) =
     map req_json (sent net) @
       (if written (session_request (settings a)) net
        then [[(''model'', ''gpt-4o-realtime-preview-2025-06-03''), (''voice'', ''verse'')]]
        else [])"
  by (simp add: route_state request_sent) (simp add: session_request_def)

section \<open>Statelessness\<close>

text \<open>
  C9. The handler keeps no state between invocations and is deterministic: its result
  depends on the configuration and on the upstream's answer to the call it makes, and on
  nothing else. Two invocations with the same configuration whose upstream answers are
  equal return the same result, whatever was attempted or sent before and whatever the
  caller sent.
\<close>

theorem session_stateless:
  assumes "upstream net (attempts net) (session_request (settings a)) =
           upstream net' (attempts net') (session_request (settings a))"
  shows "fst (get_session loads serialisable a creq net) =
         fst (get_session loads serialisable a creq' net')"
  using assms by (simp add: route_result handler_result request_result)

theorem session_stateless_witness:
  \<open>let B = ''{"id": "sess_1"}'';
       a = \<lparr>settings = \<lparr>OPENAI_API_KEY = ''sk-test''\<rparr>\<rparr>;
       creq = \<lparr>query = [], caller_headers = [], caller_body = []\<rparr>;
       creq' = \<lparr>query = [(''model'', ''other'')], caller_headers = [], caller_body = ''x''\<rparr>;
       net = \<lparr>upstream = always (Inr \<lparr>status_code = 200, resp_text = B\<rparr>),
              attempts = 0, sent = []\<rparr>;
       net' = \<lparr>upstream = always (Inr \<lparr>status_code = 200, resp_text = B\<rparr>),
               attempts = 1, sent = [session_request (settings a)]\<rparr>
   in upstream net (attempts net) (session_request (settings a)) =
        upstream net' (attempts net') (session_request (settings a)) \<and>
      fst (get_session example_loads example_serialisable a creq net) =
        fst (get_session example_loads example_serialisable a creq' net')\<close>
  unfolding Let_def
  using session_stateless
    [of \<open>\<lparr>upstream = always (Inr \<lparr>status_code = 200, resp_text = ''{"id": "sess_1"}''\<rparr>),
          attempts = 0, sent = []\<rparr>\<close>
        \<open>\<lparr>settings = \<lparr>OPENAI_API_KEY = ''sk-test''\<rparr>\<rparr>\<close>
        \<open>\<lparr>upstream = always (Inr \<lparr>status_code = 200, resp_text = ''{"id": "sess_1"}''\<rparr>),
          attempts = 1,
          sent = [session_request (settings \<lparr>settings = \<lparr>OPENAI_API_KEY = ''sk-test''\<rparr>\<rparr>)]\<rparr>\<close>
        example_loads
        example_serialisable
        \<open>\<lparr>query = [], caller_headers = [], caller_body = []\<rparr>\<close>
        \<open>\<lparr>query = [(''model'', ''other'')], caller_headers = [], caller_body = ''x''\<rparr>\<close>]
  by (simp add: always_def)


section \<open>Outbound calls\<close>

text \<open>
  C8, as the specification states it, fails: with a credential that has a character
  outside ASCII (here \<open>sk-\<close> and the two bytes of a UTF-8 letter), \<open>client.post\<close> raises
  while it builds the request. The invocation makes no attempt to reach the upstream and
  writes no request, and the caller receives \<open>500 Internal Server Error\<close>.
\<close>

theorem session_no_call_counterexample:
  \<open>attempts (snd (get_session example_loads example_serialisable
          \<lparr>settings = \<lparr>OPENAI_API_KEY = ''sk-'' @ [CHR 0xC3, CHR 0xA9]\<rparr>\<rparr>
          \<lparr>query = [], caller_headers = [], caller_body = []\<rparr>
          \<lparr>upstream = always (Inr \<lparr>status_code = 200, resp_text = ''{"id": "sess_1"}''\<rparr>),
           attempts = 0, sent = []\<rparr>)) = 0 \<and>
   sent (snd (get_session example_loads example_serialisable
          \<lparr>settings = \<lparr>OPENAI_API_KEY = ''sk-'' @ [CHR 0xC3, CHR 0xA9]\<rparr>\<rparr>
          \<lparr>query = [], caller_headers = [], caller_body = []\<rparr>
          \<lparr>upstream = always (Inr \<lparr>status_code = 200, resp_text = ''{"id": "sess_1"}''\<rparr>),
           attempts = 0, sent = []\<rparr>)) = [] \<and>
   fst (get_session example_loads example_serialisable
          \<lparr>settings = \<lparr>OPENAI_API_KEY = ''sk-'' @ [CHR 0xC3, CHR 0xA9]\<rparr>\<rparr>
          \<lparr>query = [], caller_headers = [], caller_body = []\<rparr>
          \<lparr>upstream = always (Inr \<lparr>status_code = 200, resp_text = ''{"id": "sess_1"}''\<rparr>),
           attempts = 0, sent = []\<rparr>) =
     \<lparr>status = 500, body = PlainTextBody ''Internal Server Error''\<rparr>\<close>
  by (simp add: route_state route_result handler_result render_def server_error_def
      request_sent request_attempts written_def call_simps)

text \<open>
  C8, amended. An invocation of \<open>GET /session\<close> makes at most one outbound call, with no
  retry and no cache. When the header values of its request are ASCII it makes exactly
  one attempt to reach the upstream, whatever the outcome of that attempt, and it writes
  the one session request exactly when the attempt obtains a connection and the header
  values are legal. When a header value is not ASCII it makes no attempt and writes
  nothing. The invocation changes nothing else of the network, and a second invocation
  goes through all of it again: two invocations make two attempts.
\<close>

theorem session_one_call_per_invocation:
  "attempts (snd (get_session loads serialisable a creq net)) =
     attempts net + (if ascii_headers (req_headers (session_request (settings a))) then 1 else 0) \<and>
   sent (snd (get_session loads serialisable a creq net)) =
     sent net @
       (if written (session_request (settings a)) net then [session_request (settings a)] else []) \<and>
   upstream (snd (get_session loads serialisable a creq net)) = upstream net \<and>
   attempts (snd (get_session loads serialisable a creq'
                    (snd (get_session loads serialisable a creq net)))) =
     attempts net + (if ascii_headers (req_headers (session_request (settings a))) then 2 else 0)"
  by (simp add: route_state request_sent request_attempts request_upstream)

section \<open>The credential\<close>

text \<open>
  C4, as the specification states it, fails: the handler relays the upstream's body text
  as the detail of its error, so a body that carries the credential reaches the caller.
  Here the credential is \<open>sk-test\<close> and the upstream answers 401 with a message that
  repeats the key it was given.
\<close>

theorem credential_in_response_counterexample:
  \<open>fst (get_session example_loads example_serialisable
          \<lparr>settings = \<lparr>OPENAI_API_KEY = ''sk-test''\<rparr>\<rparr>
          \<lparr>query = [], caller_headers = [], caller_body = []\<rparr>
          \<lparr>upstream = always (Inr \<lparr>status_code = 401,
                                   resp_text = ''Incorrect API key provided: sk-test''\<rparr>),
           attempts = 0, sent = []\<rparr>) =
     \<lparr>status = 401, body = DetailBody ''Incorrect API key provided: sk-test''\<rparr> \<and>
   sublist ''sk-test'' ''Incorrect API key provided: sk-test''\<close>
proof -
  have "sublist ''sk-test'' (''Incorrect API key provided: '' @ ''sk-test'')"
    by (rule sublist_append_leftI)
  then show ?thesis
    by (simp add: route_result handler_result render_def call_simps
        is_body_allowed_for_status_code_def)
qed

text \<open>
  C4, amended. For every invocation of \<open>GET /session\<close>, the \<open>Authorization\<close> header of the
  request it writes is exactly \<open>Bearer\<close>, a space and the configured credential. The
  handler writes nothing of its own into a response body: the body returned to the
  caller is the fixed text \<open>Internal Server Error\<close>, or empty, or the body text of the
  upstream's response as the detail of the error, or the value that body text decodes
  to.
\<close>

theorem credential_only_in_authorization:
  "map (\<lambda>r. map_of (req_headers r) ''Authorization'')
       (sent (snd (get_session loads serialisable a creq net))) =
     map (\<lambda>r. map_of (req_headers r) ''Authorization'') (sent net) @
       (if written (session_request (settings a)) net
        then [Some (''Bearer '' @ OPENAI_API_KEY (settings a))] else []) \<and>
   (body (fst (get_session loads serialisable a creq net)) =
      PlainTextBody ''Internal Server Error'' \<or>
    body (fst (get_session loads serialisable a creq net)) = NoBody \<or>
    (\<exists>resp. fst (request (session_request (settings a)) net) = Inr resp \<and>
       (body (fst (get_session loads serialisable a creq net)) = DetailBody (resp_text resp) \<or>
        (\<exists>j. loads (resp_text resp) = Some j \<and>
           body (fst (get_session loads serialisable a creq net)) = JSONBody j))))"
proof -
  let ?R = "fst (get_session loads serialisable a creq net)"
  let ?out = "fst (request (session_request (settings a)) net)"
  have hdr: "map (\<lambda>r. map_of (req_headers r) ''Authorization'')
       (sent (snd (get_session loads serialisable a creq net))) =
     map (\<lambda>r. map_of (req_headers r) ''Authorization'') (sent net) @
       (if written (session_request (settings a)) net
        then [Some (''Bearer '' @ OPENAI_API_KEY (settings a))] else [])"
    by (simp add: route_state request_sent) (simp add: session_request_def)
  have bdy: "body ?R = PlainTextBody ''Internal Server Error'' \<or> body ?R = NoBody \<or>
    (\<exists>resp. ?out = Inr resp \<and>
       (body ?R = DetailBody (resp_text resp) \<or>
        (\<exists>j. loads (resp_text resp) = Some j \<and> body ?R = JSONBody j)))"
  proof (cases ?out)
    case (Inl x)
    then have "\<And>S T. x \<noteq> HTTPException S T"
      using request_not_http_exception [of "session_request (settings a)" net] by auto
    then have "render serialisable (Inl x) = server_error"
      by (rule render_exception)
    with Inl have "?R = server_error"
      by (simp add: route_result handler_result)
    then show ?thesis by (simp add: server_error_def)
  next
    case (Inr resp)
    show ?thesis
    proof (cases "status_code resp = 200")
      case False
      with Inr have "?R = render serialisable (Inl (HTTPException (status_code resp) (resp_text resp)))"
        by (simp add: route_result handler_result)
      with Inr show ?thesis by (simp add: render_def)
    next
      case True
      show ?thesis
      proof (cases "loads (resp_text resp)")
        case None
        with True Inr have "?R = server_error"
          by (simp add: route_result handler_result render_def)
        then show ?thesis by (simp add: server_error_def)
      next
        case (Some j)
        with True Inr have "?R = render serialisable (Inr j)"
          by (simp add: route_result handler_result)
        with Inr Some show ?thesis by (simp add: render_def server_error_def)
      qed
    qed
  qed
  from hdr bdy show ?thesis by (rule conjI)
qed

section \<open>Startup\<close>

text \<open>
  C5, as the specification states it, fails for the empty string: the field is a \<open>str\<close>
  with no constraint on its length, so an \<open>OPENAI_API_KEY\<close> set to the empty string is a
  value like any other, the settings are built with an empty credential and the
  application is created.
\<close>

theorem startup_empty_credential_counterexample:
  "startup [(''OPENAI_API_KEY'', '''')] [] True = Inr \<lparr>settings = \<lparr>OPENAI_API_KEY = ''''\<rparr>\<rparr>"
  by (simp add: startup_def settings_simps)

text \<open>
  C5, amended. Startup fails (the process does not reach a serving state) whenever the
  credential variable \<open>OPENAI_API_KEY\<close> is absent, that is when neither the process
  environment nor the file \<open>.env\<close> has a variable of that name, in whatever case it is
  written: constructing the configuration raises a validation error while the module is
  imported, before the application exists, so the absence is a startup error and never a
  runtime one.
\<close>

theorem startup_fails_without_credential:
  assumes "lower ''OPENAI_API_KEY'' \<notin> lower ` fst ` set (environ @ dotenv)"
  shows "startup environ dotenv static_dir_exists = Inl ValidationError"
proof -
  have none: "lookup_var ''OPENAI_API_KEY'' vars = None"
    if "set vars \<subseteq> set (environ @ dotenv)" for vars
  proof -
    have "lower (fst kv) \<noteq> lower ''OPENAI_API_KEY''" if kv: "kv \<in> set (rev vars)" for kv
    proof
      assume eq: "lower (fst kv) = lower ''OPENAI_API_KEY''"
      from kv \<open>set vars \<subseteq> set (environ @ dotenv)\<close> have "kv \<in> set (environ @ dotenv)"
        by auto
      then have "lower (fst kv) \<in> lower ` fst ` set (environ @ dotenv)"
        by (intro imageI)
      with eq assms show False by simp
    qed
    then have "find (\<lambda>kv. lower (fst kv) = lower ''OPENAI_API_KEY'') (rev vars) = None"
      by (auto simp add: find_None_iff)
    then show ?thesis by (simp add: lookup_var_def)
  qed
  have "lookup_var ''OPENAI_API_KEY'' environ = None" by (rule none) simp
  moreover have "lookup_var ''OPENAI_API_KEY'' dotenv = None" by (rule none) simp
  ultimately show ?thesis by (simp add: startup_def Settings_init_def)
qed

theorem startup_fails_without_credential_witness:
  "lower ''OPENAI_API_KEY'' \<notin> lower ` fst ` set ([(''PATH'', ''/usr/bin'')] @ []) \<and>
   startup [(''PATH'', ''/usr/bin'')] [] True = Inl ValidationError"
  using startup_fails_without_credential [of "[(''PATH'', ''/usr/bin'')]" "[]" True]
  by (simp add: lower_def lower_char_def)

end
